theory Spec2Isabelle
  imports Complex_Main "HOL-Library.Sublist"
begin

section \<open>Exceptions\<close>

text \<open>
  The program is Python; every \<^verbatim>\<open>raise\<close> and every run-time failure of an
  expression is a value of \<open>exn\<close>, named after the Python exception class. A function
  that can raise returns \<open>exn + 'a\<close> with \<open>Inl\<close> for the exception.
  \<open>LibraryError\<close> stands for whatever a collaborator outside the file raises
  (\<^verbatim>\<open>requests\<close>, \<^verbatim>\<open>openai\<close>).
\<close>

datatype exn =
    ValueError string
  | TypeError string
  | IndexError string
  | AttributeError string
  | LibraryError string

section \<open>Config\<close>

text \<open>
  \<^verbatim>\<open>Config._config\<close> is the dictionary that \<^verbatim>\<open>dotenv.dotenv_values\<close> returns:
  a key of the file is bound to a string, or to \<^verbatim>\<open>None\<close> when its line has no
  \<^verbatim>\<open>=\<close>. The outer \<open>option\<close> is the presence of the key, the inner one the
  Python value.
\<close>

type_synonym config = "string \<rightharpoonup> string option"

definition get :: "config \<Rightarrow> string \<Rightarrow> string option" where
  \<comment> \<open>\<^verbatim>\<open>return self._config.get(key, None)\<close>\<close>
  "get self key = (case self key of None \<Rightarrow> None | Some v \<Rightarrow> v)"

subsection \<open>The builtin \<^verbatim>\<open>int(str)\<close>\<close>

text \<open>
  \<^verbatim>\<open>int(value)\<close> on a string, as CPython 3.11 computes it in base 10, with the
  interpreter's default limit of 4300 digits. Characters are code points below 256.
  \<^item> Whitespace before the literal is skipped: the ASCII whitespace of C
    (\<^verbatim>\<open>\t \n \x0b \x0c \r\<close> and the space) and the whitespace beyond ASCII
    (\<^verbatim>\<open>\x85\<close>, \<^verbatim>\<open>\xa0\<close>), which the conversion turns into spaces first. The
    separators \<^verbatim>\<open>\x1c\<close> to \<^verbatim>\<open>\x1f\<close> are not skipped.
  \<^item> One sign may follow, then the longest run of digits and underscores is scanned. An
    underscore at the start of the run, at its end, or next to another underscore is an
    invalid literal.
  \<^item> More than 4300 digits in the run raise the \<^verbatim>\<open>ValueError\<close> of the limit, before
    anything after the run is looked at.
  \<^item> An empty run, or anything but whitespace after the run, is an invalid literal.
  The message of an invalid literal ends with the first 200 characters of the
  \<^verbatim>\<open>repr\<close> of the string.
\<close>

definition is_space :: "char \<Rightarrow> bool" where
  "is_space c \<longleftrightarrow>
     of_char c \<in> set [0x09, 0x0A, 0x0B, 0x0C, 0x0D, 0x20, 0x85, 0xA0 :: nat]"

definition is_digit :: "char \<Rightarrow> bool" where
  "is_digit c \<longleftrightarrow> (48::nat) \<le> of_char c \<and> of_char c \<le> (57::nat)"

definition digit_val :: "char \<Rightarrow> nat" where
  "digit_val c = of_char c - 48"

definition in_run :: "char \<Rightarrow> bool" where
  "in_run c \<longleftrightarrow> is_digit c \<or> c = CHR ''_''"

fun underscores_ok :: "string \<Rightarrow> bool" where
  \<comment> \<open>on a run of digits and underscores: no underscore at the end or before another\<close>
  "underscores_ok [] = True"
| "underscores_ok [c] = (c \<noteq> CHR ''_'')"
| "underscores_ok (c # d # cs) =
     (if c = CHR ''_'' \<and> d = CHR ''_'' then False else underscores_ok (d # cs))"

fun show_nat :: "nat \<Rightarrow> string" where
  \<comment> \<open>a number in decimal, as \<^verbatim>\<open>%d\<close> prints it\<close>
  "show_nat n =
     (if n < 10 then [char_of (48 + n)]
      else show_nat (n div 10) @ [char_of (48 + n mod 10)])"

declare show_nat.simps [simp del]

definition hexdigit :: "nat \<Rightarrow> char" where
  "hexdigit n = (if n < 10 then char_of (48 + n) else char_of (87 + n))"

definition printable :: "char \<Rightarrow> bool" where
  \<comment> \<open>\<^verbatim>\<open>str.isprintable\<close> below 256\<close>
  "printable c \<longleftrightarrow>
     ((32::nat) \<le> of_char c \<and> of_char c < (127::nat)) \<or>
     ((161::nat) \<le> of_char c \<and> of_char c \<noteq> (173::nat))"

definition backslash :: char where
  "backslash = CHR 0x5C"

definition repr_char :: "char \<Rightarrow> char \<Rightarrow> string" where
  "repr_char quote c =
     (if c = quote \<or> c = backslash then [backslash, c]
      else if c = CHR 0x09 then [backslash, CHR ''t'']
      else if c = CHR 0x0A then [backslash, CHR ''n'']
      else if c = CHR 0x0D then [backslash, CHR ''r'']
      else if printable c then [c]
      else [backslash, CHR ''x'', hexdigit (of_char c div 16), hexdigit (of_char c mod 16)])"

definition py_repr :: "string \<Rightarrow> string" where
  \<comment> \<open>\<^verbatim>\<open>repr\<close> of a string: double quotes only when it holds a single quote and no
      double quote\<close>
  "py_repr s =
     (let quote = (if CHR 0x27 \<in> set s \<and> CHR 0x22 \<notin> set s then CHR 0x22 else CHR 0x27)
      in [quote] @ concat (map (repr_char quote) s) @ [quote])"

definition int_max_str_digits :: nat where
  "int_max_str_digits = 4300"

definition invalid_literal :: "string \<Rightarrow> exn" where
  "invalid_literal v =
     ValueError (''invalid literal for int() with base 10: '' @ take 200 (py_repr v))"

definition exceeds_limit :: "nat \<Rightarrow> exn" where
  "exceeds_limit digits =
     ValueError (''Exceeds the limit ('' @ show_nat int_max_str_digits @
       '' digits) for integer string conversion: value has '' @ show_nat digits @
       '' digits; use sys.set_int_max_str_digits() to increase the limit'')"

definition has_minus :: "string \<Rightarrow> bool" where
  "has_minus s = (case s of [] \<Rightarrow> False | c # cs \<Rightarrow> c = CHR ''-'')"

definition unsigned_part :: "string \<Rightarrow> string" where
  \<comment> \<open>what follows the sign, if there is one\<close>
  "unsigned_part s =
     (case s of [] \<Rightarrow> []
      | c # cs \<Rightarrow> if c = CHR ''-'' \<or> c = CHR ''+'' then cs else s)"

definition py_int :: "string \<Rightarrow> exn + int" where
  "py_int v =
     (let body = unsigned_part (dropWhile is_space v);
          run = takeWhile in_run body;
          rest = dropWhile in_run body;
          digits = filter is_digit run;
          n = int (foldl (\<lambda>acc c. 10 * acc + digit_val c) 0 digits)
      in case run of
           [] \<Rightarrow> Inl (invalid_literal v)
         | c # cs \<Rightarrow>
             if c = CHR ''_'' \<or> \<not> underscores_ok run then Inl (invalid_literal v)
             else if length digits > int_max_str_digits then Inl (exceeds_limit (length digits))
             else if \<not> list_all is_space rest then Inl (invalid_literal v)
             else Inr (if has_minus (dropWhile is_space v) then - n else n))"

definition get_int :: "config \<Rightarrow> string \<Rightarrow> exn + int option" where
  \<comment> \<open>\<^verbatim>\<open>value = self.get(key); if value is not None: return int(value); return None\<close>\<close>
  "get_int self key =
     (case get self key of
        Some v \<Rightarrow>
          (case py_int v of
             Inl ex \<Rightarrow> Inl ex
           | Inr n \<Rightarrow> Inr (Some n))
      | None \<Rightarrow> Inr None)"

definition openai_api_key :: "config \<Rightarrow> string option" where
  "openai_api_key self = get self ''OPENAI_API_KEY''"

definition example_config :: config where
  "example_config =
     [''OPENAI_API_KEY'' \<mapsto> Some ''sk-test'', ''RETRIES'' \<mapsto> Some '' +1_000 '',
      ''TIMEOUT'' \<mapsto> Some ''ten'', ''EMPTY'' \<mapsto> None]"

section \<open>The parsed document\<close>

text \<open>
  \<^verbatim>\<open>BeautifulSoup(response.content, "html.parser")\<close> is a tree of tags and strings.
  Of a tag only the name and the children matter to this program. \<open>Text\<close> is a string
  that \<^verbatim>\<open>get_text\<close> renders (\<^verbatim>\<open>NavigableString\<close>, \<^verbatim>\<open>CData\<close>); \<open>Hidden\<close> is
  a string of a class that \<^verbatim>\<open>get_text\<close> skips (a comment, a doctype, a declaration).
  The soup itself is the list of its top-level nodes.
\<close>

datatype node =
    Text string
  | Hidden string
  | Tag string "node list"

fun contents :: "node \<Rightarrow> node list" where
  "contents (Tag n cs) = cs"
| "contents (Text s) = []"
| "contents (Hidden s) = []"

fun find_tag :: "string \<Rightarrow> node list \<Rightarrow> node option" where
  \<comment> \<open>\<^verbatim>\<open>soup.title\<close>, \<^verbatim>\<open>soup.body\<close>: the first tag of that name in document order\<close>
  "find_tag n [] = None"
| "find_tag n (Text s # ns) = find_tag n ns"
| "find_tag n (Hidden s # ns) = find_tag n ns"
| "find_tag n (Tag m cs # ns) =
     (if m = n then Some (Tag m cs)
      else case find_tag n cs of Some t \<Rightarrow> Some t | None \<Rightarrow> find_tag n ns)"

fun tag_string :: "node \<Rightarrow> string option" where
  \<comment> \<open>\<^verbatim>\<open>.string\<close>: the only child when it is a string, the only child's
      \<^verbatim>\<open>.string\<close> when it is a tag, \<^verbatim>\<open>None\<close> with no child or several\<close>
  "tag_string (Text s) = Some s"
| "tag_string (Hidden s) = Some s"
| "tag_string (Tag n [c]) = tag_string c"
| "tag_string (Tag n cs) = None"

fun decompose_all :: "string list \<Rightarrow> node list \<Rightarrow> node list" where
  \<comment> \<open>\<^verbatim>\<open>for irrelevant in tag(names): irrelevant.decompose()\<close>, on the children of
      \<^verbatim>\<open>tag\<close>: every descendant tag with one of the names is destroyed with its subtree\<close>
  "decompose_all names [] = []"
| "decompose_all names (Text s # ns) = Text s # decompose_all names ns"
| "decompose_all names (Hidden s # ns) = Hidden s # decompose_all names ns"
| "decompose_all names (Tag m cs # ns) =
     (if m \<in> set names then decompose_all names ns
      else Tag m (decompose_all names cs) # decompose_all names ns)"

fun get_text :: "node list \<Rightarrow> string" where
  \<comment> \<open>\<^verbatim>\<open>tag.get_text()\<close> on the children of \<^verbatim>\<open>tag\<close>: the rendered strings below
      it, in document order, joined by the empty separator\<close>
  "get_text [] = []"
| "get_text (Text s # ns) = s @ get_text ns"
| "get_text (Hidden s # ns) = get_text ns"
| "get_text (Tag m cs # ns) = get_text cs @ get_text ns"

section \<open>Website\<close>

record response =
  status_code :: int
  content :: string

text \<open>
  The world outside the file: the answer of \<^verbatim>\<open>requests.get\<close> to a URL (a response, or
  an exception of the library), the tree that the HTML parser builds from the bytes of a
  body, the construction of the OpenAI client from an API key, and the answer of the
  chat-completion endpoint to a request.
\<close>

datatype client = OpenAI "string option"

record message =
  role :: string
  msg_content :: string

record chat_request =
  model :: string
  messages :: "message list"
  temperature :: real
  max_tokens :: int

record choice =
  message_content :: "string option"

record chat_completion =
  choices :: "choice list"

record env =
  http_get :: "string \<Rightarrow> exn + response"
  html_parser :: "string \<Rightarrow> node list"
  new_client :: "string option \<Rightarrow> exn + client"
  chat_create :: "client \<Rightarrow> chat_request \<Rightarrow> exn + chat_completion"

text \<open>
  An attribute of an object is unset until its first assignment; reading an unset
  attribute raises \<^verbatim>\<open>AttributeError\<close>. The title is \<^verbatim>\<open>soup.title.string\<close>, which
  may be \<^verbatim>\<open>None\<close>, hence \<open>string option\<close>.
\<close>

datatype 'a attr = Unset | Attr 'a

record website =
  priv_url :: "string attr"
  priv_title :: "string option attr"
  priv_text :: "string attr"

definition read_attr :: "string \<Rightarrow> 'a attr \<Rightarrow> exn + 'a" where
  "read_attr name a = (case a of Unset \<Rightarrow> Inl (AttributeError name) | Attr v \<Rightarrow> Inr v)"

definition website_url :: "website \<Rightarrow> exn + string" where
  "website_url self = read_attr ''_Website__url'' (priv_url self)"

definition website_title :: "website \<Rightarrow> exn + string option" where
  "website_title self = read_attr ''_Website__title'' (priv_title self)"

definition website_text :: "website \<Rightarrow> exn + string" where
  "website_text self = read_attr ''_Website__text'' (priv_text self)"

definition none_not_callable :: string where
  \<comment> \<open>the message of calling \<^verbatim>\<open>None\<close>\<close>
  "none_not_callable = [CHR 0x27] @ ''NoneType'' @ [CHR 0x27] @ '' object is not callable''"

definition irrelevant_tags :: "string list" where
  "irrelevant_tags = [''script'', ''style'', ''img'', ''input'']"

definition url_setter :: "env \<Rightarrow> string \<Rightarrow> website \<Rightarrow> website \<times> exn option" where
  \<comment> \<open>the setter of \<^verbatim>\<open>url\<close>: the object as the call leaves it, and the exception raised,
      if any. \<^verbatim>\<open>soup.body\<close> of line 63 is the tag of line 61, its subtree stripped
      in place.\<close>
  "url_setter e url self =
     (let self1 = self\<lparr>priv_url := Attr url\<rparr> in
      case http_get e url of
        Inl ex \<Rightarrow> (self1, Some ex)
      | Inr response \<Rightarrow>
          if status_code response = 200 then
            (let soup = html_parser e (content response);
                 self2 = self1\<lparr>priv_title := Attr
                   (case find_tag ''title'' soup of
                      Some t \<Rightarrow> tag_string t
                    | None \<Rightarrow> Some ''No title found'')\<rparr>
             in case find_tag ''body'' soup of
                  None \<Rightarrow> (self2, Some (TypeError none_not_callable))
                | Some body \<Rightarrow>
                    (self2\<lparr>priv_text := Attr
                       (get_text (decompose_all irrelevant_tags (contents body)))\<rparr>, None))
          else (self1, Some (ValueError (''Failed to fetch the URL: '' @ url))))"

definition new_object :: website where
  "new_object = \<lparr>priv_url = Unset, priv_title = Unset, priv_text = Unset\<rparr>"

definition Website_init :: "env \<Rightarrow> string \<Rightarrow> exn + website" where
  \<comment> \<open>\<^verbatim>\<open>Website(url)\<close>: \<^verbatim>\<open>__init__\<close> runs the setter on the new object; the caller gets
      the object only when no exception leaves the constructor\<close>
  "Website_init e url =
     (case url_setter e url new_object of
        (self, None) \<Rightarrow> Inr self
      | (self, Some ex) \<Rightarrow> Inl ex)"

section \<open>LlmSummarizer\<close>

text \<open>
  The state of a summarizer: the configuration given to \<^verbatim>\<open>__init__\<close> (the caller may
  pass \<^verbatim>\<open>None\<close>), and the two lazily filled attributes, \<^verbatim>\<open>None\<close> until first use.
\<close>

record llm_summarizer =
  priv_config :: "config option"
  priv_openai :: "client option"
  priv_system_behavior :: "message option"

definition LlmSummarizer_init :: "config option \<Rightarrow> llm_summarizer" where
  "LlmSummarizer_init cfg =
     \<lparr>priv_config = cfg, priv_openai = None, priv_system_behavior = None\<rparr>"

definition config_prop :: "llm_summarizer \<Rightarrow> exn + config" where
  \<comment> \<open>the property \<^verbatim>\<open>config\<close>\<close>
  "config_prop self =
     (case priv_config self of
        None \<Rightarrow> Inl (ValueError ''Config not initialized'')
      | Some c \<Rightarrow> Inr c)"

definition openai_prop :: "env \<Rightarrow> llm_summarizer \<Rightarrow> (exn + client) \<times> llm_summarizer" where
  \<comment> \<open>the property \<^verbatim>\<open>openai\<close>: the client, built on first use\<close>
  "openai_prop e self =
     (case priv_openai self of
        Some c \<Rightarrow> (Inr c, self)
      | None \<Rightarrow>
          (case config_prop self of
             Inl ex \<Rightarrow> (Inl ex, self)
           | Inr cfg \<Rightarrow>
               (case new_client e (openai_api_key cfg) of
                  Inl ex \<Rightarrow> (Inl ex, self)
                | Inr c \<Rightarrow> (Inr c, self\<lparr>priv_openai := Some c\<rparr>))))"

definition system_message :: message where
  "system_message =
     \<lparr>role = ''system'',
      msg_content =
        ''You are an assistant that analyzes the contents of a website '' @
        ''and provides a short summary, ignoring the text that might be navigation-related.'' @
        ''Respond in markdown and be concise.''\<rparr>"

definition system_behavior :: "llm_summarizer \<Rightarrow> message \<times> llm_summarizer" where
  \<comment> \<open>the property \<^verbatim>\<open>system_behavior\<close>: the cached message, created on first use\<close>
  "system_behavior self =
     (case priv_system_behavior self of
        None \<Rightarrow> (system_message, self\<lparr>priv_system_behavior := Some system_message\<rparr>)
      | Some m \<Rightarrow> (m, self))"

definition dquote :: char where
  "dquote = CHR 0x22"

definition newline :: char where
  "newline = CHR 0x0A"

definition py_str :: "string option \<Rightarrow> string" where
  \<comment> \<open>what an f-string inserts for a value that is a string or \<^verbatim>\<open>None\<close>\<close>
  "py_str v = (case v of None \<Rightarrow> ''None'' | Some s \<Rightarrow> s)"

definition user_prompt_content :: "string option \<Rightarrow> string \<Rightarrow> string" where
  "user_prompt_content title text =
     ''You are looking at the website titled '' @ [dquote] @ py_str title @ [dquote] @
     ''The content of this website is as follows; '' @
     ''please provide a short summary of this website in markdown.'' @
     ''If it includes news or announcements, then summarize these too.'' @ [newline, newline] @
     [dquote, dquote, dquote, newline] @ text @ [newline, dquote, dquote, dquote, newline, newline]"

definition user_prompt_for :: "website \<Rightarrow> exn + message" where
  "user_prompt_for website =
     (case website_title website of
        Inl ex \<Rightarrow> Inl ex
      | Inr title \<Rightarrow>
          (case website_text website of
             Inl ex \<Rightarrow> Inl ex
           | Inr text \<Rightarrow> Inr \<lparr>role = ''user'', msg_content = user_prompt_content title text\<rparr>))"

definition messages_for ::
  "llm_summarizer \<Rightarrow> website \<Rightarrow> (exn + message list) \<times> llm_summarizer" where
  \<comment> \<open>the list display evaluates \<^verbatim>\<open>self.system_behavior\<close> first\<close>
  "messages_for self website =
     (case system_behavior self of
        (sys, self1) \<Rightarrow>
          (case user_prompt_for website of
             Inl ex \<Rightarrow> (Inl ex, self1)
           | Inr usr \<Rightarrow> (Inr [sys, usr], self1)))"

datatype summarize_arg = Url string | Page website

text \<open>
  \<open>summarize\<close> threads the summarizer and the log of the requests sent to the
  chat-completion endpoint, oldest first: one entry per call of
  \<^verbatim>\<open>chat.completions.create\<close>, whether it returns or raises.
\<close>

definition completion_request :: "message list \<Rightarrow> chat_request" where
  \<comment> \<open>the keyword arguments of \<^verbatim>\<open>chat.completions.create\<close>\<close>
  "completion_request msgs =
     \<lparr>model = ''gpt-4o-mini'', messages = msgs, temperature = 0.2, max_tokens = 512\<rparr>"

definition summarize ::
  "env \<Rightarrow> llm_summarizer \<Rightarrow> summarize_arg \<Rightarrow> chat_request list \<Rightarrow>
     (exn + string option) \<times> llm_summarizer \<times> chat_request list" where
  "summarize e self arg sent =
     (case (case arg of Url url \<Rightarrow> Website_init e url | Page w \<Rightarrow> Inr w) of
        Inl ex \<Rightarrow> (Inl ex, self, sent)
      | Inr website \<Rightarrow>
          (case messages_for self website of
             (Inl ex, self1) \<Rightarrow> (Inl ex, self1, sent)
           | (Inr msgs, self1) \<Rightarrow>
               (case openai_prop e self1 of
                  (Inl ex, self2) \<Rightarrow> (Inl ex, self2, sent)
                | (Inr c, self2) \<Rightarrow>
                    (let request = completion_request msgs;
                         sent1 = sent @ [request]
                     in case chat_create e c request of
                          Inl ex \<Rightarrow> (Inl ex, self2, sent1)
                        | Inr response \<Rightarrow>
                            (case choices response of
                               [] \<Rightarrow> (Inl (IndexError ''list index out of range''), self2, sent1)
                             | first # rest \<Rightarrow> (Inr (message_content first), self2, sent1))))))"

section \<open>Presenter\<close>

text \<open>The console is the list of what has been printed to it, oldest first.\<close>

datatype renderable = Markdown string | Plain string

definition console_print :: "renderable \<Rightarrow> renderable list \<Rightarrow> renderable list" where
  "console_print r console = console @ [r]"

definition display_markdown :: "string \<Rightarrow> renderable list \<Rightarrow> renderable list" where
  \<comment> \<open>\<^verbatim>\<open>console.print(Markdown(content))\<close>\<close>
  "display_markdown md console = console_print (Markdown md) console"

definition show_summary :: "string option \<Rightarrow> renderable list \<Rightarrow> renderable list" where
  \<comment> \<open>\<^verbatim>\<open>if summary:\<close> is false for \<^verbatim>\<open>None\<close> and for the empty string\<close>
  "show_summary summary console =
     (case summary of
        None \<Rightarrow> console_print (Plain ''No summary found.'') console
      | Some s \<Rightarrow>
          if s \<noteq> [] then display_markdown s console
          else console_print (Plain ''No summary found.'') console)"

section \<open>Reachable summarizers, rendered strings, sample inputs\<close>

text \<open>
  The summarizers that the program can hold: a new one, and what any of its own
  operations leaves behind.
\<close>

inductive reachable :: "llm_summarizer \<Rightarrow> bool" where
  new: "reachable (LlmSummarizer_init cfg)"
| after_system_behavior: "reachable s \<Longrightarrow> reachable (snd (system_behavior s))"
| after_messages_for: "reachable s \<Longrightarrow> reachable (snd (messages_for s w))"
| after_openai: "reachable s \<Longrightarrow> reachable (snd (openai_prop e s))"
| after_summarize: "reachable s \<Longrightarrow> reachable (fst (snd (summarize e s arg sent)))"

text \<open>
  The rendered strings below a list of nodes, in document order, each with the names of
  the tags that enclose it inside the list, innermost first; \<open>anc\<close> are the names
  collected on the way down.
\<close>

fun rendered :: "string list \<Rightarrow> node list \<Rightarrow> (string list \<times> string) list" where
  "rendered anc [] = []"
| "rendered anc (Text s # ns) = (anc, s) # rendered anc ns"
| "rendered anc (Hidden s # ns) = rendered anc ns"
| "rendered anc (Tag m cs # ns) = rendered (m # anc) cs @ rendered anc ns"

definition outside :: "string list \<Rightarrow> string list \<times> string \<Rightarrow> bool" where
  \<comment> \<open>no enclosing tag has one of the names\<close>
  "outside names p \<longleftrightarrow> set (fst p) \<inter> set names = {}"

definition sample_page :: "node list" where
  \<comment> \<open>\<^verbatim>\<open><html><title>T</title><body><script>x</script><p>Hello</p></body></html>\<close>\<close>
  "sample_page =
     [Tag ''html''
        [Tag ''title'' [Text ''T''],
         Tag ''body'' [Tag ''script'' [Text ''x''], Tag ''p'' [Text ''Hello'']]]]"

definition page_without_body :: "node list" where
  \<comment> \<open>\<^verbatim>\<open><html><title>T</title></html>\<close>\<close>
  "page_without_body = [Tag ''html'' [Tag ''title'' [Text ''T'']]]"



definition sample_env :: "int \<Rightarrow> node list \<Rightarrow> choice list \<Rightarrow> env" where
  \<comment> \<open>a world where every GET answers with the given status, every body parses to the
      given tree, the client is built, and every completion holds the given choices\<close>
  "sample_env status doc cs =
     \<lparr>http_get = (\<lambda>url. Inr \<lparr>status_code = status, content = ''page''\<rparr>),
      html_parser = (\<lambda>bytes. doc),
      new_client = (\<lambda>key. Inr (OpenAI key)),
      chat_create = (\<lambda>c request. Inr \<lparr>choices = cs\<rparr>)\<rparr>"

definition sample_summarizer :: llm_summarizer where
  "sample_summarizer = LlmSummarizer_init (Some example_config)"

section \<open>Properties\<close>

subsection \<open>What the setter and the constructor compute\<close>

lemma url_setter_fetched:
  assumes "http_get e url = Inr r" "status_code r = 200"
    and "find_tag ''body'' (html_parser e (content r)) = Some body"
  shows "url_setter e url self =
     (self\<lparr>priv_url := Attr url,
            priv_title := Attr (case find_tag ''title'' (html_parser e (content r)) of
                                  Some t \<Rightarrow> tag_string t | None \<Rightarrow> Some ''No title found''),
            priv_text := Attr (get_text (decompose_all irrelevant_tags (contents body)))\<rparr>, None)"
  using assms by (simp add: url_setter_def Let_def)

lemma url_setter_no_body:
  assumes "http_get e url = Inr r" "status_code r = 200"
    and "find_tag ''body'' (html_parser e (content r)) = None"
  shows "snd (url_setter e url self) = Some (TypeError none_not_callable)"
  using assms by (simp add: url_setter_def Let_def)

lemma url_setter_status:
  assumes "http_get e url = Inr r" "status_code r \<noteq> 200"
  shows "url_setter e url self =
     (self\<lparr>priv_url := Attr url\<rparr>, Some (ValueError (''Failed to fetch the URL: '' @ url)))"
  using assms by (simp add: url_setter_def Let_def)

lemma url_setter_sets_url: "priv_url (fst (url_setter e url self)) = Attr url"
  by (simp add: url_setter_def Let_def split: sum.splits option.splits)

lemma Website_init_fetched:
  assumes "http_get e url = Inr r" "status_code r = 200"
    and "find_tag ''body'' (html_parser e (content r)) = Some body"
  shows "Website_init e url =
     Inr \<lparr>priv_url = Attr url,
          priv_title = Attr (case find_tag ''title'' (html_parser e (content r)) of
                                  Some t \<Rightarrow> tag_string t | None \<Rightarrow> Some ''No title found''),
          priv_text = Attr (get_text (decompose_all irrelevant_tags (contents body)))\<rparr>"
  by (simp add: Website_init_def url_setter_fetched [OF assms] new_object_def)

lemma Website_init_populated:
  assumes "Website_init e url = Inr w"
  shows "priv_url w = Attr url \<and> priv_title w \<noteq> Unset \<and> priv_text w \<noteq> Unset"
  using assms
  by (auto simp add: Website_init_def url_setter_def Let_def new_object_def
      split: sum.splits option.splits if_splits)

subsection \<open>Rendered strings and destroyed subtrees\<close>

lemma rendered_anc: "p \<in> set (rendered anc ns) \<Longrightarrow> set anc \<subseteq> set (fst p)"
  by (induction anc ns rule: rendered.induct) auto

lemma get_text_rendered: "get_text ns = concat (map snd (rendered anc ns))"
  by (induction anc ns rule: rendered.induct) auto

lemma rendered_inside:
  assumes "m \<in> set names"
  shows "filter (outside names) (rendered (m # anc) cs) = []"
proof -
  have "\<not> outside names p" if "p \<in> set (rendered (m # anc) cs)" for p
    using rendered_anc [OF that] assms by (auto simp add: outside_def)
  then show ?thesis by (simp add: filter_empty_conv)
qed

lemma get_text_decompose_all:
  "set anc \<inter> set names = {} \<Longrightarrow>
   get_text (decompose_all names ns) = concat (map snd (filter (outside names) (rendered anc ns)))"
proof (induction anc ns rule: rendered.induct)
  case (4 anc m cs ns)
  show ?case
  proof (cases "m \<in> set names")
    case True
    with 4 show ?thesis by (simp add: rendered_inside)
  next
    case False
    with 4 show ?thesis by simp
  qed
qed (simp_all add: outside_def)

subsection \<open>The sample world\<close>

lemma sample_env_simps [simp]:
  "http_get (sample_env st doc cs) url = Inr \<lparr>status_code = st, content = ''page''\<rparr>"
  "html_parser (sample_env st doc cs) bytes = doc"
  "new_client (sample_env st doc cs) key = Inr (OpenAI key)"
  "chat_create (sample_env st doc cs) c request = Inr \<lparr>choices = cs\<rparr>"
  by (simp_all add: sample_env_def)

subsection \<open>The lazily created system message\<close>

lemma system_behavior_cached:
  assumes "priv_system_behavior s = None \<or> priv_system_behavior s = Some system_message"
  shows "fst (system_behavior s) = system_message"
    and "priv_system_behavior (snd (system_behavior s)) = Some system_message"
  using assms by (auto simp add: system_behavior_def)

lemma messages_for_state: "snd (messages_for s w) = snd (system_behavior s)"
  by (simp add: messages_for_def split: prod.splits sum.splits)

lemma openai_prop_cache:
  "priv_system_behavior (snd (openai_prop e s)) = priv_system_behavior s"
  by (simp add: openai_prop_def split: option.splits sum.splits)

lemma summarize_cache:
  "priv_system_behavior (fst (snd (summarize e s arg sent))) = priv_system_behavior s \<or>
   priv_system_behavior (fst (snd (summarize e s arg sent))) =
     priv_system_behavior (snd (system_behavior s))"
proof -
  have m: "messages_for s w = (r, s1) \<Longrightarrow> s1 = snd (system_behavior s)" for w r s1
    using messages_for_state [of s w] by simp
  have o: "openai_prop e s1 = (r, s2) \<Longrightarrow> priv_system_behavior s2 = priv_system_behavior s1"
    for s1 r s2
    using openai_prop_cache [of e s1] by simp
  show ?thesis
    by (auto simp add: summarize_def Let_def split: sum.splits prod.splits list.splits
        dest!: m o)
qed

lemma reachable_cache:
  "reachable s \<Longrightarrow>
   priv_system_behavior s = None \<or> priv_system_behavior s = Some system_message"
proof (induction rule: reachable.induct)
  case (new cfg)
  show ?case by (simp add: LlmSummarizer_init_def)
next
  case (after_system_behavior s)
  then show ?case by (simp add: system_behavior_cached)
next
  case (after_messages_for s w)
  then show ?case by (simp add: messages_for_state system_behavior_cached)
next
  case (after_openai s e)
  then show ?case by (simp add: openai_prop_cache)
next
  case (after_summarize s e arg sent)
  from system_behavior_cached(2) [OF after_summarize.IH] summarize_cache [of e s arg sent]
    after_summarize.IH
  show ?case by auto
qed

lemma messages_for_populated:
  assumes "priv_system_behavior s = None \<or> priv_system_behavior s = Some system_message"
    and "priv_title w = Attr title" and "priv_text w = Attr bodyText"
  shows "fst (messages_for s w) =
     Inr [system_message, \<lparr>role = ''user'', msg_content = user_prompt_content title bodyText\<rparr>]"
  using system_behavior_cached(1) [OF assms(1)] assms(2,3)
  by (auto simp add: messages_for_def user_prompt_for_def website_title_def website_text_def
      read_attr_def split: prod.splits)

lemma summarize_fetch_error:
  "Website_init e url = Inl ex \<Longrightarrow> summarize e self (Url url) sent = (Inl ex, self, sent)"
  by (simp add: summarize_def)

subsection \<open>A constructed page always yields its messages\<close>

lemma messages_for_constructed:
  assumes "Website_init e url = Inr w"
  shows "\<exists>msgs self1. messages_for self w = (Inr msgs, self1)"
proof -
  from Website_init_populated [OF assms] obtain t b
    where "priv_title w = Attr t" and "priv_text w = Attr b"
    by (cases "priv_title w"; cases "priv_text w") auto
  then show ?thesis
    by (simp add: messages_for_def user_prompt_for_def website_title_def website_text_def
        read_attr_def split: prod.splits)
qed

subsection \<open>The sample run\<close>

lemma sample_website:
  "Website_init (sample_env 200 sample_page cs) ''https://cnn.com'' =
     Inr \<lparr>priv_url = Attr ''https://cnn.com'', priv_title = Attr (Some ''T''),
          priv_text = Attr ''Hello''\<rparr>"
  by (simp add: Website_init_def url_setter_def Let_def new_object_def sample_page_def
      irrelevant_tags_def)

lemma sample_messages:
  "messages_for sample_summarizer
      \<lparr>priv_url = Attr ''https://cnn.com'', priv_title = Attr (Some ''T''),
       priv_text = Attr ''Hello''\<rparr> =
     (Inr [system_message,
           \<lparr>role = ''user'', msg_content = user_prompt_content (Some ''T'') ''Hello''\<rparr>],
      sample_summarizer\<lparr>priv_system_behavior := Some system_message\<rparr>)"
  by (simp add: messages_for_def system_behavior_def sample_summarizer_def
      LlmSummarizer_init_def user_prompt_for_def website_title_def website_text_def
      read_attr_def)

lemma sample_client:
  "openai_prop (sample_env st doc cs)
      (sample_summarizer\<lparr>priv_system_behavior := Some system_message\<rparr>) =
     (Inr (OpenAI (Some ''sk-test'')),
      sample_summarizer\<lparr>priv_system_behavior := Some system_message,
                          priv_openai := Some (OpenAI (Some ''sk-test''))\<rparr>)"
  by (simp add: openai_prop_def sample_summarizer_def LlmSummarizer_init_def config_prop_def
      openai_api_key_def get_def example_config_def)

subsection \<open>What \<open>py_int\<close> accepts and rejects\<close>

lemma py_int_raises_ValueError:
  assumes "py_int v = Inl ex"
  shows "\<exists>msg. ex = ValueError msg"
  using assms
  by (auto simp add: py_int_def Let_def invalid_literal_def exceeds_limit_def
      split: list.splits if_splits)


lemma py_int_Inr_parts:
  assumes "py_int v = Inr n"
  shows "\<exists>d ds. takeWhile in_run (unsigned_part (dropWhile is_space v)) = d # ds \<and> d \<noteq> CHR ''_''"
    and "list_all is_space (dropWhile in_run (unsigned_part (dropWhile is_space v)))"
  using assms
  by (auto simp add: py_int_def Let_def split: list.splits if_splits)

lemma set_unsigned_part: "set s \<subseteq> {CHR ''-'', CHR ''+''} \<union> set (unsigned_part s)"
  by (cases s) (auto simp add: unsigned_part_def)

lemma set_unsigned_part_sub: "set (unsigned_part s) \<subseteq> set s"
  by (cases s) (auto simp add: unsigned_part_def)

lemma py_int_accepted_chars:
  assumes "py_int v = Inr n" and "c \<in> set v"
  shows "is_space c \<or> c = CHR ''-'' \<or> c = CHR ''+'' \<or> is_digit c \<or> c = CHR ''_''"
proof -
  let ?s = "dropWhile is_space v"
  let ?b = "unsigned_part ?s"
  have "set v = set (takeWhile is_space v) \<union> set ?s"
    by (metis set_append takeWhile_dropWhile_id)
  with assms(2) consider "c \<in> set (takeWhile is_space v)" | "c \<in> set ?s" by blast
  then show ?thesis
  proof cases
    case 1
    then show ?thesis by (auto dest: set_takeWhileD)
  next
    case 2
    with set_unsigned_part [of ?s]
    consider "c = CHR ''-'' \<or> c = CHR ''+''" | "c \<in> set ?b" by blast
    then show ?thesis
    proof cases
      case 1
      then show ?thesis by blast
    next
      case 2
      have "set ?b = set (takeWhile in_run ?b) \<union> set (dropWhile in_run ?b)"
        by (metis set_append takeWhile_dropWhile_id)
      with 2 consider "c \<in> set (takeWhile in_run ?b)" | "c \<in> set (dropWhile in_run ?b)" by blast
      then show ?thesis
      proof cases
        case 1
        then have "in_run c" by (auto dest: set_takeWhileD)
        then show ?thesis by (simp add: in_run_def)
      next
        case 2
        with py_int_Inr_parts(2) [OF assms(1)] show ?thesis
          by (simp add: list_all_iff)
      qed
    qed
  qed
qed

lemma py_int_accepted_has_digit:
  assumes "py_int v = Inr n"
  shows "\<exists>c \<in> set v. is_digit c"
proof -
  let ?s = "dropWhile is_space v"
  let ?b = "unsigned_part ?s"
  from py_int_Inr_parts(1) [OF assms] obtain d ds
    where run: "takeWhile in_run ?b = d # ds" and d: "d \<noteq> CHR ''_''"
    by blast
  from run have "d \<in> set (takeWhile in_run ?b)" by simp
  then have "in_run d" and b: "d \<in> set ?b" by (auto dest: set_takeWhileD)
  with d have dig: "is_digit d" by (simp add: in_run_def)
  from b set_unsigned_part_sub [of ?s] have "d \<in> set ?s" by blast
  then have "d \<in> set v" by (rule set_dropWhileD)
  with dig show ?thesis by blast
qed

lemma py_int_sample: "py_int '' +1_000 '' = Inr 1000"
  by (simp add: py_int_def Let_def unsigned_part_def has_minus_def is_space_def in_run_def
      is_digit_def digit_val_def int_max_str_digits_def)

lemma py_int_separator_rejected: "isl (py_int ([CHR 0x1C] @ ''12''))"
  by (simp add: py_int_def Let_def unsigned_part_def is_space_def in_run_def is_digit_def)

section \<open>Claims\<close>

text \<open>
  C1 (as the code has it). When the fetch succeeds, the messages are built, the client is
  there and the chat-completion call returns a response: with at least one choice,
  \<open>summarize\<close> returns the content of the first choice (a string, or \<^verbatim>\<open>None\<close> when
  that choice has no content), after exactly one request; with zero choices it does not
  return an absent summary but raises \<^verbatim>\<open>IndexError\<close>, from \<^verbatim>\<open>choices[0]\<close>.
\<close>

theorem summarize_first_choice:
  assumes "Website_init e url = Inr w"
    and "messages_for self w = (Inr msgs, self1)"
    and "openai_prop e self1 = (Inr c, self2)"
    and "chat_create e c (completion_request msgs) = Inr response"
  shows "(\<forall>first rest. choices response = first # rest \<longrightarrow>
            summarize e self (Url url) sent =
              (Inr (message_content first), self2, sent @ [completion_request msgs])) \<and>
         (choices response = [] \<longrightarrow>
            summarize e self (Url url) sent =
              (Inl (IndexError ''list index out of range''), self2,
               sent @ [completion_request msgs]))"
  using assms by (simp add: summarize_def Let_def)

theorem summarize_first_choice_witness:
  "summarize (sample_env 200 sample_page [\<lparr>message_content = Some ''Summary.''\<rparr>])
      sample_summarizer (Url ''https://cnn.com'') [] =
     (Inr (Some ''Summary.''),
      sample_summarizer\<lparr>priv_system_behavior := Some system_message,
                          priv_openai := Some (OpenAI (Some ''sk-test''))\<rparr>,
      [completion_request
         [system_message,
          \<lparr>role = ''user'', msg_content = user_prompt_content (Some ''T'') ''Hello''\<rparr>]])"
  using summarize_first_choice [OF sample_website sample_messages sample_client, of
      "[\<lparr>message_content = Some ''Summary.''\<rparr>]"
      "\<lparr>choices = [\<lparr>message_content = Some ''Summary.''\<rparr>]\<rparr>" "[]"]
  by simp

text \<open>
  The sample page and a completion without choices: \<open>summarize\<close> raises, it does
  not return \<^verbatim>\<open>None\<close>.
\<close>

theorem zero_choices_IndexError:
  "summarize (sample_env 200 sample_page []) sample_summarizer (Url ''https://cnn.com'') [] =
     (Inl (IndexError ''list index out of range''),
      sample_summarizer\<lparr>priv_system_behavior := Some system_message,
                          priv_openai := Some (OpenAI (Some ''sk-test''))\<rparr>,
      [completion_request
         [system_message,
          \<lparr>role = ''user'', msg_content = user_prompt_content (Some ''T'') ''Hello''\<rparr>]])"
  by (simp add: summarize_def sample_website sample_messages sample_client)

text \<open>
  C2 (as the code has it). For every URL whose GET returns a status other than 200, the
  construction of the page raises \<^verbatim>\<open>ValueError\<close> with the message
  \<^verbatim>\<open>Failed to fetch the URL: \<close> followed by the URL, and \<open>summarize\<close> called with
  that URL raises the same exception, leaves the summarizer as it was and sends no
  chat-completion request. The exception holds the URL and not the status code.
\<close>

theorem fetch_status_not_200:
  assumes "http_get e url = Inr r" and "status_code r \<noteq> 200"
  shows "Website_init e url = Inl (ValueError (''Failed to fetch the URL: '' @ url)) \<and>
         summarize e self (Url url) sent =
           (Inl (ValueError (''Failed to fetch the URL: '' @ url)), self, sent)"
proof -
  have w: "Website_init e url = Inl (ValueError (''Failed to fetch the URL: '' @ url))"
    by (simp add: Website_init_def url_setter_status [OF assms])
  from w summarize_fetch_error [OF w] show ?thesis by simp
qed

theorem fetch_status_not_200_witness:
  "http_get (sample_env 404 sample_page []) ''https://cnn.com'' =
     Inr \<lparr>status_code = 404, content = ''page''\<rparr> \<and>
   status_code \<lparr>status_code = 404, content = ''page''\<rparr> \<noteq> 200 \<and>
   Website_init (sample_env 404 sample_page []) ''https://cnn.com'' =
     Inl (ValueError ''Failed to fetch the URL: https://cnn.com'') \<and>
   summarize (sample_env 404 sample_page []) sample_summarizer (Url ''https://cnn.com'') [] =
     (Inl (ValueError ''Failed to fetch the URL: https://cnn.com''), sample_summarizer, [])"
  using fetch_status_not_200 [of "sample_env 404 sample_page []" "''https://cnn.com''"
      "\<lparr>status_code = 404, content = ''page''\<rparr>" sample_summarizer "[]"]
  by simp

text \<open>
  Status 404 and status 500 on the same URL raise the same exception: the status code
  cannot be read back from it.
\<close>

theorem fetch_error_without_status_code:
  "Website_init (sample_env 404 sample_page []) ''https://cnn.com'' =
     Inl (ValueError ''Failed to fetch the URL: https://cnn.com'') \<and>
   Website_init (sample_env 500 sample_page []) ''https://cnn.com'' =
     Inl (ValueError ''Failed to fetch the URL: https://cnn.com'')"
  by (simp add: Website_init_def url_setter_def Let_def new_object_def)

text \<open>
  C3. A status-200 response whose document has no body element: \<^verbatim>\<open>soup.body\<close> is
  \<^verbatim>\<open>None\<close>, and calling it raises \<^verbatim>\<open>TypeError\<close>. The code tests
  \<^verbatim>\<open>soup.title\<close> for absence on the line before and does not test \<^verbatim>\<open>soup.body\<close>.
\<close>

theorem no_body_TypeError:
  "find_tag ''body'' page_without_body = None \<and>
   Website_init (sample_env 200 page_without_body []) ''https://cnn.com'' =
     Inl (TypeError none_not_callable)"
  by (simp add: Website_init_def url_setter_def Let_def new_object_def page_without_body_def)




text \<open>
  C5. For every status-200 response whose document has a body, the text of the page is
  the concatenation, in document order, of exactly those rendered strings of the body that
  have no enclosing script, style, img or input element inside the body: no string of such
  an element or of its descendants is part of it. (The first conjunct says that
  \<open>rendered\<close> lists the text of the body.)
\<close>

theorem body_text_outside_irrelevant_tags:
  assumes "http_get e url = Inr r" and "status_code r = 200"
    and "find_tag ''body'' (html_parser e (content r)) = Some body"
  shows "get_text (contents body) = concat (map snd (rendered [] (contents body))) \<and>
     (\<exists>w. Website_init e url = Inr w \<and>
        priv_text w =
          Attr (concat (map snd
            (filter (outside irrelevant_tags) (rendered [] (contents body))))))"
  using get_text_decompose_all [of "[]" irrelevant_tags "contents body"]
    get_text_rendered [of "contents body" "[]"]
  by (simp add: Website_init_fetched [OF assms])

theorem body_text_outside_irrelevant_tags_witness:
  "http_get (sample_env 200 sample_page []) ''https://cnn.com'' =
     Inr \<lparr>status_code = 200, content = ''page''\<rparr> \<and>
   find_tag ''body'' (html_parser (sample_env 200 sample_page []) ''page'') =
     Some (Tag ''body'' [Tag ''script'' [Text ''x''], Tag ''p'' [Text ''Hello'']]) \<and>
   rendered [] [Tag ''script'' [Text ''x''], Tag ''p'' [Text ''Hello'']] =
     [([''script''], ''x''), ([''p''], ''Hello'')] \<and>
   (\<exists>w. Website_init (sample_env 200 sample_page []) ''https://cnn.com'' = Inr w \<and>
      priv_text w = Attr ''Hello'')"
proof -
  have b: "find_tag ''body'' (html_parser (sample_env 200 sample_page []) ''page'') =
      Some (Tag ''body'' [Tag ''script'' [Text ''x''], Tag ''p'' [Text ''Hello'']])"
    by (simp add: sample_page_def)
  have r: "rendered [] [Tag ''script'' [Text ''x''], Tag ''p'' [Text ''Hello'']] =
     [([''script''], ''x''), ([''p''], ''Hello'')]"
    by simp
  from body_text_outside_irrelevant_tags [of "sample_env 200 sample_page []" "''https://cnn.com''"
      "\<lparr>status_code = 200, content = ''page''\<rparr>"
      "Tag ''body'' [Tag ''script'' [Text ''x''], Tag ''p'' [Text ''Hello'']]"] b
  have "\<exists>w. Website_init (sample_env 200 sample_page []) ''https://cnn.com'' = Inr w \<and>
      priv_text w = Attr ''Hello''"
    by (simp add: outside_def irrelevant_tags_def)
  with b r show ?thesis by simp
qed

text \<open>
  C6. For every title and body text, \<open>messages_for\<close> on a summarizer the program can
  hold returns exactly two messages, the system message and then the user message, and the
  content of the user message contains the title and the body text as contiguous
  substrings.
\<close>

theorem messages_for_two_messages:
  assumes "reachable self" and "priv_title w = Attr (Some title)"
    and "priv_text w = Attr bodyText"
  shows "\<exists>sys usr. fst (messages_for self w) = Inr [sys, usr] \<and>
     role sys = ''system'' \<and> role usr = ''user'' \<and>
     sublist title (msg_content usr) \<and> sublist bodyText (msg_content usr)"
proof -
  let ?usr = "\<lparr>role = ''user'', msg_content = user_prompt_content (Some title) bodyText\<rparr>"
  have m: "fst (messages_for self w) = Inr [system_message, ?usr]"
    by (rule messages_for_populated [OF reachable_cache [OF assms(1)] assms(2,3)])
  have "user_prompt_content (Some title) bodyText =
      (''You are looking at the website titled '' @ [dquote]) @ title @
      ([dquote] @ ''The content of this website is as follows; '' @
       ''please provide a short summary of this website in markdown.'' @
       ''If it includes news or announcements, then summarize these too.'' @
       [newline, newline] @ [dquote, dquote, dquote, newline] @ bodyText @
       [newline, dquote, dquote, dquote, newline, newline])"
    by (simp add: user_prompt_content_def py_str_def)
  then have t: "sublist title (user_prompt_content (Some title) bodyText)"
    by (simp only: sublist_appendI)
  have "user_prompt_content (Some title) bodyText =
      (''You are looking at the website titled '' @ [dquote] @ title @ [dquote] @
       ''The content of this website is as follows; '' @
       ''please provide a short summary of this website in markdown.'' @
       ''If it includes news or announcements, then summarize these too.'' @
       [newline, newline] @ [dquote, dquote, dquote, newline]) @ bodyText @
      [newline, dquote, dquote, dquote, newline, newline]"
    by (simp add: user_prompt_content_def py_str_def)
  then have b: "sublist bodyText (user_prompt_content (Some title) bodyText)"
    by (simp only: sublist_appendI)
  from m t b show ?thesis by (simp add: system_message_def)
qed

theorem messages_for_two_messages_witness:
  "reachable sample_summarizer \<and>
   (\<exists>sys usr.
      fst (messages_for sample_summarizer
             \<lparr>priv_url = Attr ''https://cnn.com'', priv_title = Attr (Some ''T''),
              priv_text = Attr ''Hello''\<rparr>) = Inr [sys, usr] \<and>
      role sys = ''system'' \<and> role usr = ''user'' \<and>
      sublist ''T'' (msg_content usr) \<and> sublist ''Hello'' (msg_content usr))"
proof -
  have r: "reachable sample_summarizer"
    by (simp add: sample_summarizer_def reachable.new)
  from r messages_for_two_messages [OF r, of
      "\<lparr>priv_url = Attr ''https://cnn.com'', priv_title = Attr (Some ''T''),
        priv_text = Attr ''Hello''\<rparr>" "''T''" "''Hello''"]
  show ?thesis by simp
qed

text \<open>
  C7 (as the code has it). A page that the constructor returns has its url, title and
  text all set; when the constructor raises, no page is returned and \<open>summarize\<close>
  passes the exception on. The url is not immutable: an assignment through the setter
  puts the new url into the object.
\<close>

theorem constructed_page_populated:
  "(Website_init e url = Inr w \<longrightarrow>
      priv_url w = Attr url \<and> priv_title w \<noteq> Unset \<and> priv_text w \<noteq> Unset) \<and>
   (Website_init e url = Inl ex \<longrightarrow> summarize e self (Url url) sent = (Inl ex, self, sent)) \<and>
   priv_url (fst (url_setter e url' w')) = Attr url'"
  using Website_init_populated [of e url w] url_setter_sets_url [of e url' w']
  by (simp add: summarize_def)

theorem constructed_page_populated_witness:
  "Website_init (sample_env 200 sample_page []) ''https://cnn.com'' =
     Inr \<lparr>priv_url = Attr ''https://cnn.com'', priv_title = Attr (Some ''T''),
          priv_text = Attr ''Hello''\<rparr> \<and>
   Website_init (sample_env 404 sample_page []) ''https://cnn.com'' =
     Inl (ValueError ''Failed to fetch the URL: https://cnn.com'') \<and>
   summarize (sample_env 404 sample_page []) sample_summarizer (Url ''https://cnn.com'') [] =
     (Inl (ValueError ''Failed to fetch the URL: https://cnn.com''), sample_summarizer, [])"
proof -
  have a: "Website_init (sample_env 200 sample_page []) ''https://cnn.com'' =
     Inr \<lparr>priv_url = Attr ''https://cnn.com'', priv_title = Attr (Some ''T''),
          priv_text = Attr ''Hello''\<rparr>"
    by (simp add: Website_init_def url_setter_def Let_def new_object_def sample_page_def
        irrelevant_tags_def)
  have b: "Website_init (sample_env 404 sample_page []) ''https://cnn.com'' =
     Inl (ValueError ''Failed to fetch the URL: https://cnn.com'')"
    by (simp add: Website_init_def url_setter_def Let_def new_object_def)
  from constructed_page_populated [of "sample_env 404 sample_page []" "''https://cnn.com''" _
      "ValueError ''Failed to fetch the URL: https://cnn.com''" sample_summarizer "[]"] b
  have c: "summarize (sample_env 404 sample_page []) sample_summarizer (Url ''https://cnn.com'') [] =
     (Inl (ValueError ''Failed to fetch the URL: https://cnn.com''), sample_summarizer, [])"
    by simp
  from a b c show ?thesis by simp
qed

text \<open>
  Assigning another url to a constructed page changes its url; when the new fetch fails,
  the page keeps the new url with the old title and text.
\<close>

theorem url_reassigned:
  "Website_init (sample_env 200 sample_page []) ''https://cnn.com'' =
     Inr \<lparr>priv_url = Attr ''https://cnn.com'', priv_title = Attr (Some ''T''),
          priv_text = Attr ''Hello''\<rparr> \<and>
   url_setter (sample_env 404 sample_page []) ''https://bbc.com''
       \<lparr>priv_url = Attr ''https://cnn.com'', priv_title = Attr (Some ''T''),
        priv_text = Attr ''Hello''\<rparr> =
     (\<lparr>priv_url = Attr ''https://bbc.com'', priv_title = Attr (Some ''T''),
       priv_text = Attr ''Hello''\<rparr>,
      Some (ValueError ''Failed to fetch the URL: https://bbc.com''))"
  by (simp add: Website_init_def url_setter_def Let_def new_object_def sample_page_def
        irrelevant_tags_def)

text \<open>
  C8. A summary that is present and not empty is printed as markdown; an absent or empty
  summary prints the plain message \<^verbatim>\<open>No summary found.\<close> and nothing is rendered as
  markdown.
\<close>

theorem show_summary_cases:
  "(summary = Some s \<and> s \<noteq> [] \<longrightarrow> show_summary summary console = console @ [Markdown s]) \<and>
   (summary = None \<or> summary = Some [] \<longrightarrow>
      show_summary summary console = console @ [Plain ''No summary found.''])"
  by (auto simp add: show_summary_def display_markdown_def console_print_def)

theorem show_summary_cases_witness:
  "show_summary (Some ''Summary.'') [] = [Markdown ''Summary.''] \<and>
   show_summary None [] = [Plain ''No summary found.''] \<and>
   show_summary (Some '''') [] = [Plain ''No summary found.'']"
  using show_summary_cases [of "Some ''Summary.''" "''Summary.''" "[]"]
    show_summary_cases [of None _ "[]"] show_summary_cases [of "Some ''''" _ "[]"]
  by simp

text \<open>
  C9. For every key, \<open>get_int\<close> returns an absent value (\<^verbatim>\<open>None\<close>) when the key is
  missing from the store, and raises when the key is bound to a string that
  \<^verbatim>\<open>int\<close> cannot parse: the exception of \<^verbatim>\<open>int\<close> leaves \<open>get_int\<close>
  unchanged and is a \<^verbatim>\<open>ValueError\<close>. In particular it raises for every string
  without a digit and for every string with a character that is not a digit, a sign, an
  underscore or whitespace.
\<close>

theorem get_int_missing_or_unparseable:
  "(self key = None \<longrightarrow> get_int self key = Inr None) \<and>
   (self key = Some (Some v) \<and> py_int v = Inl ex \<longrightarrow>
      get_int self key = Inl ex \<and> (\<exists>msg. ex = ValueError msg)) \<and>
   (self key = Some (Some v) \<and>
    ((\<forall>c \<in> set v. \<not> is_digit c) \<or>
     (\<exists>c \<in> set v. \<not> is_digit c \<and> \<not> is_space c \<and> c \<noteq> CHR ''-'' \<and> c \<noteq> CHR ''+'' \<and>
        c \<noteq> CHR ''_'')) \<longrightarrow>
      (\<exists>msg. get_int self key = Inl (ValueError msg)))"
proof (intro conjI impI)
  assume "self key = None"
  then show "get_int self key = Inr None"
    by (simp add: get_int_def get_def)
next
  assume a: "self key = Some (Some v) \<and> py_int v = Inl ex"
  then show "get_int self key = Inl ex"
    by (simp add: get_int_def get_def)
  from a py_int_raises_ValueError [of v ex] show "\<exists>msg. ex = ValueError msg"
    by simp
next
  assume a: "self key = Some (Some v) \<and>
    ((\<forall>c \<in> set v. \<not> is_digit c) \<or>
     (\<exists>c \<in> set v. \<not> is_digit c \<and> \<not> is_space c \<and> c \<noteq> CHR ''-'' \<and> c \<noteq> CHR ''+'' \<and>
        c \<noteq> CHR ''_''))"
  have "\<exists>ex. py_int v = Inl ex"
  proof (cases "py_int v")
    case (Inl ex)
    then show ?thesis by simp
  next
    case (Inr n)
    from a py_int_accepted_chars [OF Inr] py_int_accepted_has_digit [OF Inr]
    show ?thesis by blast
  qed
  then obtain ex where ex: "py_int v = Inl ex" ..
  from py_int_raises_ValueError [OF ex] obtain msg where "ex = ValueError msg" ..
  with a ex show "\<exists>msg. get_int self key = Inl (ValueError msg)"
    by (simp add: get_int_def get_def)
qed

theorem get_int_missing_or_unparseable_witness:
  "example_config ''PORT'' = None \<and> get_int example_config ''PORT'' = Inr None \<and>
   example_config ''TIMEOUT'' = Some (Some ''ten'') \<and>
   py_int ''ten'' =
     Inl (ValueError (''invalid literal for int() with base 10: '' @
                      [CHR 0x27] @ ''ten'' @ [CHR 0x27])) \<and>
   \<not> is_digit (CHR ''t'') \<and> \<not> is_digit (CHR ''e'') \<and> \<not> is_digit (CHR ''n'') \<and>
   get_int example_config ''TIMEOUT'' =
     Inl (ValueError (''invalid literal for int() with base 10: '' @
                      [CHR 0x27] @ ''ten'' @ [CHR 0x27])) \<and>
   (\<exists>msg. get_int example_config ''TIMEOUT'' = Inl (ValueError msg))"
proof -
  have a: "example_config ''PORT'' = None"
    by (simp add: example_config_def)
  have b: "example_config ''TIMEOUT'' = Some (Some ''ten'')"
    by (simp add: example_config_def)
  have c: "py_int ''ten'' =
     Inl (ValueError (''invalid literal for int() with base 10: '' @
                      [CHR 0x27] @ ''ten'' @ [CHR 0x27]))"
    by (simp add: py_int_def Let_def unsigned_part_def is_space_def in_run_def is_digit_def
        invalid_literal_def py_repr_def repr_char_def printable_def backslash_def)
  have d: "\<not> is_digit (CHR ''t'') \<and> \<not> is_digit (CHR ''e'') \<and> \<not> is_digit (CHR ''n'')"
    by (simp add: is_digit_def)
  from get_int_missing_or_unparseable [of example_config "''PORT''"] a
  have 1: "get_int example_config ''PORT'' = Inr None" by simp
  from get_int_missing_or_unparseable [of example_config "''TIMEOUT''" "''ten''"] b c
  have 2: "get_int example_config ''TIMEOUT'' =
     Inl (ValueError (''invalid literal for int() with base 10: '' @
                      [CHR 0x27] @ ''ten'' @ [CHR 0x27]))"
    by simp
  from get_int_missing_or_unparseable [of example_config "''TIMEOUT''" "''ten''"] b d
  have 3: "\<exists>msg. get_int example_config ''TIMEOUT'' = Inl (ValueError msg)"
    by simp
  from a b c d 1 2 3 show ?thesis by simp
qed

text \<open>
  C10. On any two summarizers the program can hold and any two pages with the same title
  and the same text, \<open>messages_for\<close> returns the same result, and the system message is
  the same fixed message on both.
\<close>

theorem prompt_deterministic:
  assumes "reachable s1" and "reachable s2"
    and "priv_title w1 = Attr title" and "priv_text w1 = Attr bodyText"
    and "priv_title w2 = Attr title" and "priv_text w2 = Attr bodyText"
  shows "fst (messages_for s1 w1) = fst (messages_for s2 w2) \<and>
     fst (system_behavior s1) = system_message \<and> fst (system_behavior s2) = system_message"
  using messages_for_populated [OF reachable_cache [OF assms(1)] assms(3,4)]
    messages_for_populated [OF reachable_cache [OF assms(2)] assms(5,6)]
    system_behavior_cached(1) [OF reachable_cache [OF assms(1)]]
    system_behavior_cached(1) [OF reachable_cache [OF assms(2)]]
  by simp

theorem prompt_deterministic_witness:
  "reachable sample_summarizer \<and> reachable (snd (system_behavior sample_summarizer)) \<and>
   fst (messages_for sample_summarizer
          \<lparr>priv_url = Attr ''https://cnn.com'', priv_title = Attr (Some ''T''),
           priv_text = Attr ''Hello''\<rparr>) =
   fst (messages_for (snd (system_behavior sample_summarizer))
          \<lparr>priv_url = Attr ''https://bbc.com'', priv_title = Attr (Some ''T''),
           priv_text = Attr ''Hello''\<rparr>) \<and>
   fst (system_behavior sample_summarizer) = system_message \<and>
   fst (system_behavior (snd (system_behavior sample_summarizer))) = system_message"
proof -
  have r1: "reachable sample_summarizer"
    by (simp add: sample_summarizer_def reachable.new)
  have r2: "reachable (snd (system_behavior sample_summarizer))"
    by (rule reachable.after_system_behavior [OF r1])
  from r1 r2 prompt_deterministic [OF r1 r2, of
      "\<lparr>priv_url = Attr ''https://cnn.com'', priv_title = Attr (Some ''T''),
        priv_text = Attr ''Hello''\<rparr>" "Some ''T''" "''Hello''"
      "\<lparr>priv_url = Attr ''https://bbc.com'', priv_title = Attr (Some ''T''),
        priv_text = Attr ''Hello''\<rparr>"]
  show ?thesis by simp
qed

end
